theory Spec2Isabelle
  imports Complex_Main
begin

section \<open>Exceptions and tensors\<close>

text \<open>
  The exceptions that the modelled parts of \<^verbatim>\<open>models/detectors/pointpillars.py\<close> can
  raise. A fallible operation returns \<open>error + 'a\<close>, with \<open>Inl\<close> for the exception.
\<close>

datatype error =
    ValueError
  | NameError
  | AssertionError
  | RuntimeError
  | AttributeError
  | TypeError
  | IndexError

text \<open>
  A two-dimensional tensor is the list of its rows. Finite floating point values are
  idealised as reals: rounding is not modelled. Every concrete value used below (0, 1, 2
  and quotients by 1) is exactly representable in \<^verbatim>\<open>float32\<close>.
\<close>

type_synonym 'a tensor2 = "'a list list"

text \<open>
  The result of a floating point division: a finite value, or one of the special values
  that a division by zero produces (\<^verbatim>\<open>nan\<close> for 0 / 0, an infinity otherwise). The
  divisors below are counts, so a zero divisor is the positive zero.
\<close>

datatype float32 = Fin real | PInf | NInf | NaN

definition fl_div :: "real \<Rightarrow> real \<Rightarrow> float32" where
  "fl_div v d =
     (if d = 0 then (if v = 0 then NaN else if v > 0 then PInf else NInf)
      else Fin (v / d))"

definition bind_err :: "error + 'a \<Rightarrow> ('a \<Rightarrow> error + 'b) \<Rightarrow> error + 'b" where
  "bind_err m f = (case m of Inl e \<Rightarrow> Inl e | Inr v \<Rightarrow> f v)"

section \<open>The loss-weight preparer\<close>

text \<open>\<^verbatim>\<open>t.type(dtype)\<close> on a boolean tensor entry.\<close>

definition type_dtype :: "bool \<Rightarrow> real" where
  "type_dtype b = (if b then 1 else 0)"

text \<open>
  \<^verbatim>\<open>t.sum(1, keepdim=True)\<close> of a tensor of shape [N, M]: one entry per batch row
  (the tensor of shape [N, 1]).
\<close>

definition sum_keepdim :: "real tensor2 \<Rightarrow> real list" where
  "sum_keepdim t = map sum_list t"

text \<open>\<^verbatim>\<open>torch.clamp(t, min=m)\<close>, elementwise.\<close>

definition clamp_min :: "real list \<Rightarrow> real \<Rightarrow> real list" where
  "clamp_min t m = map (\<lambda>v. max v m) t"

text \<open>
  \<^verbatim>\<open>t /= n\<close> for \<open>t\<close> of shape [N, M] and \<open>n\<close> of shape [N, 1]: the divisor of a
  batch row is broadcast along its anchors.
\<close>

definition div_rows :: "real tensor2 \<Rightarrow> real list \<Rightarrow> float32 tensor2" where
  "div_rows t n = map2 (\<lambda>row d. map (\<lambda>v. fl_div v d) row) t n"

text \<open>\<^verbatim>\<open>t /= u\<close> for two tensors of shape [N, M].\<close>

definition div_elems :: "real tensor2 \<Rightarrow> real tensor2 \<Rightarrow> float32 tensor2" where
  "div_elems t u = map2 (\<lambda>row drow. map2 (\<lambda>v d. fl_div v d) row drow) t u"

text \<open>The masks of lines 784 to 787.\<close>

definition cared_of :: "int tensor2 \<Rightarrow> bool tensor2" where
  "cared_of labels = map (map (\<lambda>l. l \<ge> 0)) labels"

definition positives_of :: "int tensor2 \<Rightarrow> bool tensor2" where
  "positives_of labels = map (map (\<lambda>l. l > 0)) labels"

definition negatives_of :: "int tensor2 \<Rightarrow> bool tensor2" where
  "negatives_of labels = map (map (\<lambda>l. l = 0)) labels"

text \<open>
  Line 788: the negative weight on the negative anchors, zero elsewhere. No later line
  reads it.
\<close>

definition negatives_cls_weights :: "int tensor2 \<Rightarrow> real \<Rightarrow> real tensor2" where
  "negatives_cls_weights labels neg_cls_weight =
     map (map (\<lambda>n. type_dtype n * neg_cls_weight)) (negatives_of labels)"

text \<open>
  The weights before normalisation, lines 789 and 790. Line 789 adds the scalar
  \<^verbatim>\<open>neg_cls_weight\<close>, to every anchor, not the tensor of line 788.
\<close>

definition base_cls_weights :: "int tensor2 \<Rightarrow> real \<Rightarrow> real \<Rightarrow> real tensor2" where
  "base_cls_weights labels pos_cls_weight neg_cls_weight =
     map (map (\<lambda>p. neg_cls_weight + pos_cls_weight * type_dtype p)) (positives_of labels)"

definition base_reg_weights :: "int tensor2 \<Rightarrow> real tensor2" where
  "base_reg_weights labels = map (map type_dtype) (positives_of labels)"

text \<open>\<^verbatim>\<open>torch.clamp(pos_normalizer, min=1.0)\<close> of lines 798 to 800.\<close>

definition pos_normalizer :: "int tensor2 \<Rightarrow> real list" where
  "pos_normalizer labels = sum_keepdim (map (map type_dtype) (positives_of labels))"

text \<open>
  The branch \<^verbatim>\<open>NormByNumPosNeg\<close>, lines 802 to 809: \<open>pos_neg\<close> stacks the two masks,
  \<open>normalizer\<close> holds the two counts of a row, and \<open>cls_normalizer\<close> is, per anchor, the
  count of the group the anchor is in.
\<close>

definition cls_normalizer :: "int tensor2 \<Rightarrow> real tensor2" where
  "cls_normalizer labels =
     map (\<lambda>row.
        (let npos = sum_list (map (\<lambda>l. type_dtype (l > 0)) row);
             nneg = sum_list (map (\<lambda>l. type_dtype (l = 0)) row)
         in map (\<lambda>l. max (type_dtype (l > 0) * npos + type_dtype (l = 0) * nneg) 1) row))
       labels"

text \<open>
  \<^verbatim>\<open>prepare_loss_weights\<close>, lines 778 to 813. The result is the triple
  \<open>(cls_weights, reg_weights, cared)\<close>. In the last branch, line 811 names
  \<^verbatim>\<open>ValueError\<close>, but its argument is evaluated first: the message is an f-string that
  reads \<^verbatim>\<open>LossNormType\<close>, a name that the module neither defines nor imports (line 812
  is its only occurrence). The lookup raises \<^verbatim>\<open>NameError\<close>, and no \<^verbatim>\<open>ValueError\<close> is
  ever built.
\<close>

definition prepare_loss_weights ::
  "int tensor2 \<Rightarrow> real \<Rightarrow> real \<Rightarrow> string
     \<Rightarrow> error + (float32 tensor2 \<times> float32 tensor2 \<times> bool tensor2)"
where
  "prepare_loss_weights labels pos_cls_weight neg_cls_weight loss_norm_type =
     (let cared = cared_of labels;
          cls_weights = base_cls_weights labels pos_cls_weight neg_cls_weight;
          reg_weights = base_reg_weights labels
      in
      if loss_norm_type = ''NormByNumExamples'' then
        (let num_examples = clamp_min (sum_keepdim (map (map type_dtype) cared)) 1;
             bbox_normalizer = pos_normalizer labels
         in Inr (div_rows cls_weights num_examples,
                 div_rows reg_weights (clamp_min bbox_normalizer 1),
                 cared))
      else if loss_norm_type = ''NormByNumPositives'' then
        Inr (div_rows cls_weights (clamp_min (pos_normalizer labels) 1),
             div_rows reg_weights (clamp_min (pos_normalizer labels) 1),
             cared)
      else if loss_norm_type = ''NormByNumPosNeg'' then
        Inr (div_elems cls_weights (cls_normalizer labels),
             div_rows reg_weights (clamp_min (pos_normalizer labels) 1),
             cared)
      else Inl NameError)"

section \<open>Scores from class logits\<close>

definition sigmoid :: "real \<Rightarrow> real" where
  "sigmoid v = 1 / (1 + exp (- v))"

text \<open>\<^verbatim>\<open>F.softmax(row, dim=-1)\<close> on the class channels of one anchor.\<close>

definition softmax :: "real list \<Rightarrow> real list" where
  "softmax row = map (\<lambda>v. exp v / sum_list (map exp row)) row"

text \<open>
  Lines 258 to 267 of \<^verbatim>\<open>PointPillars.predict\<close> (and 640 to 649 of
  \<^verbatim>\<open>PointPillars_trt.predict\<close>): \<open>cls_preds\<close> has one row of class logits per anchor;
  \<^verbatim>\<open>[..., 1:]\<close> drops the first channel of every row.
\<close>

definition total_scores_of :: "bool \<Rightarrow> bool \<Rightarrow> real tensor2 \<Rightarrow> error + real tensor2" where
  "total_scores_of encode_background_as_zeros use_sigmoid_score cls_preds =
     (if encode_background_as_zeros then
        (if use_sigmoid_score then Inr (map (map sigmoid) cls_preds)
         else Inl AssertionError)
      else if use_sigmoid_score then Inr (map (\<lambda>row. drop 1 (map sigmoid row)) cls_preds)
      else Inr (map (\<lambda>row. drop 1 (softmax row)) cls_preds))"

section \<open>Boxes and the direction resolver\<close>

text \<open>
  A decoded box is a row of seven reals: centre, dimensions and yaw. The yaw is the last
  column, \<^verbatim>\<open>box_preds[..., -1]\<close>.
\<close>

record box =
  cx :: real
  cy :: real
  cz :: real
  dim_w :: real
  dim_l :: real
  dim_h :: real
  yaw :: real

text \<open>
  \<^verbatim>\<open>torch.max(dir_preds, dim=-1)[1]\<close> over the two direction channels of an anchor: the
  index of the larger logit (the first one on a tie).
\<close>

definition dir_labels_of :: "(real \<times> real) list \<Rightarrow> int list" where
  "dir_labels_of dir_preds = map (\<lambda>(a, b). if b > a then 1 else 0) dir_preds"

text \<open>
  Lines 374 to 379 of \<^verbatim>\<open>PointPillars.predict\<close>: \<^verbatim>\<open>opp_labels\<close> is the exclusive or of
  \<^verbatim>\<open>yaw > 0\<close> and \<^verbatim>\<open>dir_labels.bool()\<close>, and \<^verbatim>\<open>torch.where\<close> adds \<open>pi\<close> or 0 to the
  yaw. On booleans, exclusive or is inequality.
\<close>

definition opp_label :: "box \<Rightarrow> int \<Rightarrow> bool" where
  "opp_label b d = ((yaw b > 0) \<noteq> (d \<noteq> 0))"

definition resolve_direction :: "box list \<Rightarrow> int list \<Rightarrow> box list" where
  "resolve_direction box_preds dir_labels =
     map2 (\<lambda>b d. b\<lparr>yaw := yaw b + (if opp_label b d then pi else 0)\<rparr>) box_preds dir_labels"

text \<open>
  Lines 758 to 762 of \<^verbatim>\<open>PointPillars_trt.predict\<close>: the same with
  \<^verbatim>\<open>dir_labels.byte() > 0\<close>, the label reduced to an unsigned byte first.
\<close>

definition opp_label_trt :: "box \<Rightarrow> int \<Rightarrow> bool" where
  "opp_label_trt b d = ((yaw b > 0) \<noteq> (d mod 256 > 0))"

definition resolve_direction_trt :: "box list \<Rightarrow> int list \<Rightarrow> box list" where
  "resolve_direction_trt box_preds dir_labels =
     map2 (\<lambda>b d. b\<lparr>yaw := yaw b + (if opp_label_trt b d then pi else 0)\<rparr>) box_preds dir_labels"

section \<open>Python values of the selection variables\<close>

text \<open>
  \<^verbatim>\<open>selected_boxes\<close>, \<^verbatim>\<open>selected_labels\<close>, \<^verbatim>\<open>selected_scores\<close> and
  \<^verbatim>\<open>selected_dir_labels\<close> hold \<^verbatim>\<open>None\<close>, a Python list of tensors, or one tensor,
  at different points of \<^verbatim>\<open>predict\<close>. A tensor is the list of its rows.
\<close>

datatype 'a pyval = PyNone | PyList "'a list list" | Tensor "'a list"

text \<open>\<^verbatim>\<open>v.append(t)\<close>: only a list has the method.\<close>

fun py_append :: "'a pyval \<Rightarrow> 'a list \<Rightarrow> error + 'a pyval" where
  "py_append (PyList ts) t = Inr (PyList (ts @ [t]))"
| "py_append (Tensor rows) t = Inl AttributeError"
| "py_append PyNone t = Inl AttributeError"

text \<open>\<^verbatim>\<open>len(v)\<close>.\<close>

fun py_len :: "'a pyval \<Rightarrow> error + nat" where
  "py_len (PyList ts) = Inr (length ts)"
| "py_len (Tensor rows) = Inr (length rows)"
| "py_len PyNone = Inl TypeError"

text \<open>
  \<^verbatim>\<open>torch.cat(v, dim=0)\<close>: the rows of the listed tensors, in order. PyTorch raises a
  \<^verbatim>\<open>RuntimeError\<close> on an empty list ("expected a non-empty list of Tensors") and a
  \<^verbatim>\<open>TypeError\<close> on an argument that is no sequence of tensors.
\<close>

fun torch_cat :: "'a pyval \<Rightarrow> error + 'a pyval" where
  "torch_cat (PyList []) = Inl RuntimeError"
| "torch_cat (PyList (t # ts)) = Inr (Tensor (concat (t # ts)))"
| "torch_cat (Tensor rows) = Inl TypeError"
| "torch_cat PyNone = Inl TypeError"

text \<open>
  \<^verbatim>\<open>t[selected]\<close> for a tensor of indices: the rows at these places, an
  \<^verbatim>\<open>IndexError\<close> when one is out of range. The result is a new tensor.
\<close>

definition index_rows :: "'a list \<Rightarrow> nat list \<Rightarrow> error + 'a list" where
  "index_rows t selected =
     (if list_all (\<lambda>j. j < length t) selected then Inr (map (\<lambda>j. t ! j) selected)
      else Inl IndexError)"

text \<open>\<^verbatim>\<open>total_scores[selected, i]\<close>: column \<open>i\<close> of the rows at \<open>selected\<close>.\<close>

definition index_column :: "'a tensor2 \<Rightarrow> nat list \<Rightarrow> nat \<Rightarrow> error + 'a list" where
  "index_column t selected i =
     (if list_all (\<lambda>j. j < length t \<and> i < length (t ! j)) selected
      then Inr (map (\<lambda>j. t ! j ! i) selected)
      else Inl IndexError)"

text \<open>
  \<^verbatim>\<open>t.masked_select(keep)\<close> and \<^verbatim>\<open>t[keep]\<close> for a boolean tensor \<open>keep\<close>; the
  second raises an \<^verbatim>\<open>IndexError\<close> when the shapes differ.
\<close>

definition masked_select :: "'a list \<Rightarrow> bool list \<Rightarrow> 'a list" where
  "masked_select t keep = map fst (filter snd (zip t keep))"

definition mask_index :: "'a list \<Rightarrow> bool list \<Rightarrow> error + 'a list" where
  "mask_index t keep =
     (if length keep = length t then Inr (masked_select t keep) else Inl IndexError)"

record selection =
  selected_boxes :: "box pyval"
  selected_labels :: "int pyval"
  selected_scores :: "real pyval"
  selected_dir_labels :: "int pyval"

text \<open>Lines 274 to 277, and again 317 to 320.\<close>

definition no_selection :: selection where
  "no_selection = \<lparr>selected_boxes = PyNone, selected_labels = PyNone,
                    selected_scores = PyNone, selected_dir_labels = PyNone\<rparr>"

text \<open>Lines 299 and 300: four empty lists.\<close>

definition empty_lists :: selection where
  "empty_lists = \<lparr>selected_boxes = PyList [], selected_labels = PyList [],
                   selected_scores = PyList [], selected_dir_labels = PyList []\<rparr>"

section \<open>Assembly after multiclass NMS\<close>

text \<open>
  \<^verbatim>\<open>box_torch_ops.multiclass_nms\<close> is not part of this file. Its result
  \<^verbatim>\<open>selected_per_class\<close> is taken as given: per class, \<^verbatim>\<open>None\<close> or the indices of the
  anchors that survived the threshold and NMS for that class.

  The body of the loop of \<^verbatim>\<open>PointPillars.predict\<close>, lines 302 to 315, for class \<open>i\<close>.
  The test \<^verbatim>\<open>len(selected_boxes) > 0\<close> and the concatenations stand inside the loop,
  under \<^verbatim>\<open>if selected is not None\<close>; nothing is appended to \<^verbatim>\<open>selected_scores\<close> or
  \<^verbatim>\<open>selected_dir_labels\<close>.
\<close>

definition pp_body :: "bool \<Rightarrow> box list \<Rightarrow> nat \<Rightarrow> nat list option \<Rightarrow> selection \<Rightarrow> error + selection"
where
  "pp_body use_direction_classifier box_preds i sel st =
     (case sel of
        None \<Rightarrow> Inr st
      | Some selected \<Rightarrow>
          bind_err (index_rows box_preds selected) (\<lambda>rows.
          bind_err (py_append (selected_boxes st) rows) (\<lambda>sb.
          bind_err (py_append (selected_labels st) (replicate (length selected) (int i))) (\<lambda>sl.
          bind_err (py_len sb) (\<lambda>n.
          if n > 0 then
            bind_err (torch_cat sb) (\<lambda>sb'.
            bind_err (torch_cat sl) (\<lambda>sl'.
            bind_err (torch_cat (selected_scores st)) (\<lambda>ss'.
            if use_direction_classifier then
              bind_err (torch_cat (selected_dir_labels st)) (\<lambda>sd'.
                Inr \<lparr>selected_boxes = sb', selected_labels = sl',
                     selected_scores = ss', selected_dir_labels = sd'\<rparr>)
            else
              Inr \<lparr>selected_boxes = sb', selected_labels = sl',
                   selected_scores = ss', selected_dir_labels = selected_dir_labels st\<rparr>)))
          else
            Inr (st\<lparr>selected_boxes := sb, selected_labels := sl\<rparr>))))))"

text \<open>\<^verbatim>\<open>for i, selected in enumerate(selected_per_class)\<close>, from class \<open>i\<close> on.\<close>

fun pp_loop :: "bool \<Rightarrow> box list \<Rightarrow> nat \<Rightarrow> nat list option list \<Rightarrow> selection \<Rightarrow> error + selection"
where
  "pp_loop use_direction_classifier box_preds i [] st = Inr st"
| "pp_loop use_direction_classifier box_preds i (sel # sels) st =
     bind_err (pp_body use_direction_classifier box_preds i sel st)
       (pp_loop use_direction_classifier box_preds (Suc i) sels)"

text \<open>
  Lines 299 to 320. The \<^verbatim>\<open>else\<close> of line 316 belongs to the \<^verbatim>\<open>for\<close>: the loop has no
  \<^verbatim>\<open>break\<close>, so it runs whenever the loop ends without an exception.
\<close>

definition pp_assemble :: "bool \<Rightarrow> box list \<Rightarrow> nat list option list \<Rightarrow> error + selection" where
  "pp_assemble use_direction_classifier box_preds selected_per_class =
     bind_err (pp_loop use_direction_classifier box_preds 0 selected_per_class empty_lists)
       (\<lambda>st. Inr no_selection)"

text \<open>The body of the loop of \<^verbatim>\<open>PointPillars_trt.predict\<close>, lines 683 to 690.\<close>

definition trt_body ::
  "bool \<Rightarrow> box list \<Rightarrow> int list \<Rightarrow> real tensor2 \<Rightarrow> nat \<Rightarrow> nat list option \<Rightarrow> selection
     \<Rightarrow> error + selection"
where
  "trt_body use_direction_classifier box_preds dir_labels total_scores i sel st =
     (case sel of
        None \<Rightarrow> Inr st
      | Some selected \<Rightarrow>
          bind_err (index_rows box_preds selected) (\<lambda>rows.
          bind_err (py_append (selected_boxes st) rows) (\<lambda>sb.
          bind_err (py_append (selected_labels st) (replicate (length selected) (int i))) (\<lambda>sl.
          bind_err (if use_direction_classifier then
                      bind_err (index_rows dir_labels selected)
                        (py_append (selected_dir_labels st))
                    else Inr (selected_dir_labels st)) (\<lambda>sd.
          bind_err (index_column total_scores selected i) (\<lambda>col.
          bind_err (py_append (selected_scores st) col) (\<lambda>ss.
            Inr \<lparr>selected_boxes = sb, selected_labels = sl,
                 selected_scores = ss, selected_dir_labels = sd\<rparr>)))))))"

fun trt_loop ::
  "bool \<Rightarrow> box list \<Rightarrow> int list \<Rightarrow> real tensor2 \<Rightarrow> nat \<Rightarrow> nat list option list \<Rightarrow> selection
     \<Rightarrow> error + selection"
where
  "trt_loop use_direction_classifier box_preds dir_labels total_scores i [] st = Inr st"
| "trt_loop use_direction_classifier box_preds dir_labels total_scores i (sel # sels) st =
     bind_err (trt_body use_direction_classifier box_preds dir_labels total_scores i sel st)
       (trt_loop use_direction_classifier box_preds dir_labels total_scores (Suc i) sels)"

text \<open>
  Lines 680 to 702: here the test \<^verbatim>\<open>len(selected_boxes) > 0\<close> follows the loop, and
  the \<^verbatim>\<open>else\<close> is its own.
\<close>

definition trt_assemble ::
  "bool \<Rightarrow> box list \<Rightarrow> int list \<Rightarrow> real tensor2 \<Rightarrow> nat list option list \<Rightarrow> error + selection"
where
  "trt_assemble use_direction_classifier box_preds dir_labels total_scores selected_per_class =
     bind_err (trt_loop use_direction_classifier box_preds dir_labels total_scores 0
                 selected_per_class empty_lists) (\<lambda>st.
     bind_err (py_len (selected_boxes st)) (\<lambda>n.
     if n > 0 then
       bind_err (torch_cat (selected_boxes st)) (\<lambda>sb.
       bind_err (torch_cat (selected_labels st)) (\<lambda>sl.
       bind_err (torch_cat (selected_scores st)) (\<lambda>ss.
       if use_direction_classifier then
         bind_err (torch_cat (selected_dir_labels st)) (\<lambda>sd.
           Inr \<lparr>selected_boxes = sb, selected_labels = sl,
                selected_scores = ss, selected_dir_labels = sd\<rparr>)
       else
         Inr \<lparr>selected_boxes = sb, selected_labels = sl,
              selected_scores = ss, selected_dir_labels = selected_dir_labels st\<rparr>)))
     else Inr no_selection))"

section \<open>Selection without multiclass NMS, and the final package\<close>

text \<open>
  Lines 330 to 365 of \<^verbatim>\<open>PointPillars.predict\<close>. \<open>nms_func\<close> stands for
  \<^verbatim>\<open>box_torch_ops.nms\<close> or \<^verbatim>\<open>rotate_nms\<close> (not part of this file) with the size caps
  and the IoU threshold fixed, applied to the bird's-eye-view form of the boxes it is
  given; it returns \<^verbatim>\<open>None\<close> or the indices it keeps. \<open>top_scores\<close> and
  \<open>top_labels\<close> are the best class score and class of every anchor (lines 324 to 328).
  \<open>dir_labels\<close> is read only with the direction classifier.
\<close>

definition single_class_select ::
  "real \<Rightarrow> bool \<Rightarrow> (box list \<Rightarrow> real list \<Rightarrow> nat list option)
     \<Rightarrow> box list \<Rightarrow> real list \<Rightarrow> int list \<Rightarrow> int list \<Rightarrow> error + selection"
where
  "single_class_select nms_score_threshold use_direction_classifier nms_func
       box_preds top_scores top_labels dir_labels =
     (let top_scores_keep = map (\<lambda>s. s \<ge> nms_score_threshold) top_scores;
          top_scores1 = (if nms_score_threshold > 0
                         then masked_select top_scores top_scores_keep else top_scores)
      in
      if length top_scores1 = 0 then Inr no_selection
      else
        bind_err (if nms_score_threshold > 0
                  then mask_index box_preds top_scores_keep else Inr box_preds) (\<lambda>box_preds1.
        bind_err (if nms_score_threshold > 0 \<and> use_direction_classifier
                  then mask_index dir_labels top_scores_keep else Inr dir_labels) (\<lambda>dir_labels1.
        bind_err (if nms_score_threshold > 0
                  then mask_index top_labels top_scores_keep else Inr top_labels) (\<lambda>top_labels1.
        (case nms_func box_preds1 top_scores1 of
           None \<Rightarrow> Inr no_selection
         | Some selected \<Rightarrow>
             bind_err (index_rows box_preds1 selected) (\<lambda>sb.
             bind_err (if use_direction_classifier
                       then bind_err (index_rows dir_labels1 selected) (\<lambda>sd. Inr (Tensor sd))
                       else Inr PyNone) (\<lambda>sd.
             bind_err (index_rows top_labels1 selected) (\<lambda>sl.
             bind_err (index_rows top_scores1 selected) (\<lambda>ss.
               Inr \<lparr>selected_boxes = Tensor sb, selected_labels = Tensor sl,
                    selected_scores = Tensor ss, selected_dir_labels = sd\<rparr>)))))))))"

text \<open>The dictionary that \<^verbatim>\<open>predict\<close> appends for one sample.\<close>

record prediction =
  bbox :: "box pyval"
  box3d_camera :: "box pyval"
  box3d_lidar :: "box pyval"
  scores :: "real pyval"
  label_preds :: "int pyval"
  image_idx :: nat

text \<open>Lines 393 to 400.\<close>

definition no_detections :: "nat \<Rightarrow> prediction" where
  "no_detections img_idx =
     \<lparr>bbox = PyNone, box3d_camera = PyNone, box3d_lidar = PyNone,
      scores = PyNone, label_preds = PyNone, image_idx = img_idx\<rparr>"

text \<open>
  Lines 368 to 400. With the direction classifier, the yaw column of the selected boxes
  is corrected; a value that is no tensor has no yaw column and no \<^verbatim>\<open>bool()\<close>, and
  tensors of different lengths do not combine.
\<close>

definition finalize :: "bool \<Rightarrow> selection \<Rightarrow> nat \<Rightarrow> error + prediction" where
  "finalize use_direction_classifier st img_idx =
     (case selected_boxes st of
        PyNone \<Rightarrow> Inr (no_detections img_idx)
      | PyList ts \<Rightarrow>
          (if use_direction_classifier then Inl TypeError
           else Inr \<lparr>bbox = PyNone, box3d_camera = PyNone, box3d_lidar = PyList ts,
                     scores = selected_scores st, label_preds = selected_labels st,
                     image_idx = img_idx\<rparr>)
      | Tensor box_preds \<Rightarrow>
          (if use_direction_classifier then
             (case selected_dir_labels st of
                Tensor dir_labels \<Rightarrow>
                  (if length dir_labels = length box_preds then
                     Inr \<lparr>bbox = PyNone, box3d_camera = PyNone,
                          box3d_lidar = Tensor (resolve_direction box_preds dir_labels),
                          scores = selected_scores st, label_preds = selected_labels st,
                          image_idx = img_idx\<rparr>
                   else Inl RuntimeError)
              | PyList ts \<Rightarrow> Inl AttributeError
              | PyNone \<Rightarrow> Inl AttributeError)
           else Inr \<lparr>bbox = PyNone, box3d_camera = PyNone, box3d_lidar = Tensor box_preds,
                     scores = selected_scores st, label_preds = selected_labels st,
                     image_idx = img_idx\<rparr>))"

text \<open>One sample of \<^verbatim>\<open>PointPillars.predict\<close> without multiclass NMS, lines 330 to 401.\<close>

definition predict_single_class ::
  "real \<Rightarrow> bool \<Rightarrow> (box list \<Rightarrow> real list \<Rightarrow> nat list option)
     \<Rightarrow> box list \<Rightarrow> real list \<Rightarrow> int list \<Rightarrow> int list \<Rightarrow> nat \<Rightarrow> error + prediction"
where
  "predict_single_class nms_score_threshold use_direction_classifier nms_func
       box_preds top_scores top_labels dir_labels img_idx =
     bind_err (single_class_select nms_score_threshold use_direction_classifier nms_func
                 box_preds top_scores top_labels dir_labels)
       (\<lambda>st. finalize use_direction_classifier st img_idx)"

text \<open>One sample of \<^verbatim>\<open>PointPillars.predict\<close> with multiclass NMS, lines 299 to 401.\<close>

definition predict_multiclass ::
  "bool \<Rightarrow> box list \<Rightarrow> nat list option list \<Rightarrow> nat \<Rightarrow> error + prediction" where
  "predict_multiclass use_direction_classifier box_preds selected_per_class img_idx =
     bind_err (pp_assemble use_direction_classifier box_preds selected_per_class)
       (\<lambda>st. finalize use_direction_classifier st img_idx)"

section \<open>The final package of \<^verbatim>\<open>PointPillars_trt.predict\<close>\<close>

text \<open>
  What \<^verbatim>\<open>PointPillars_trt.predict\<close> adds for one sample: the tuple of boxes, scores,
  labels and image index (line 769), or five times \<^verbatim>\<open>None\<close> and the image index
  (line 771).
\<close>

datatype trt_prediction =
    Detections "box pyval" "real pyval" "int pyval" nat
  | NoDetections nat

text \<open>Lines 752 to 771, with the resolver of lines 758 to 762.\<close>

definition finalize_trt :: "bool \<Rightarrow> selection \<Rightarrow> nat \<Rightarrow> error + trt_prediction" where
  "finalize_trt use_direction_classifier st img_idx =
     (case selected_boxes st of
        PyNone \<Rightarrow> Inr (NoDetections img_idx)
      | PyList ts \<Rightarrow>
          (if use_direction_classifier then Inl TypeError
           else Inr (Detections (PyList ts) (selected_scores st) (selected_labels st) img_idx))
      | Tensor box_preds \<Rightarrow>
          (if use_direction_classifier then
             (case selected_dir_labels st of
                Tensor dir_labels \<Rightarrow>
                  (if length dir_labels = length box_preds then
                     Inr (Detections (Tensor (resolve_direction_trt box_preds dir_labels))
                            (selected_scores st) (selected_labels st) img_idx)
                   else Inl RuntimeError)
              | PyList ts \<Rightarrow> Inl AttributeError
              | PyNone \<Rightarrow> Inl AttributeError)
           else Inr (Detections (Tensor box_preds) (selected_scores st) (selected_labels st)
                       img_idx)))"

text \<open>
  One sample of \<^verbatim>\<open>PointPillars_trt.predict\<close> without multiclass NMS, lines 715 to 771.
  Lines 715 to 749 are, statement for statement, lines 330 to 365 of
  \<^verbatim>\<open>PointPillars.predict\<close>.
\<close>

definition predict_trt_single_class ::
  "real \<Rightarrow> bool \<Rightarrow> (box list \<Rightarrow> real list \<Rightarrow> nat list option)
     \<Rightarrow> box list \<Rightarrow> real list \<Rightarrow> int list \<Rightarrow> int list \<Rightarrow> nat \<Rightarrow> error + trt_prediction"
where
  "predict_trt_single_class nms_score_threshold use_direction_classifier nms_func
       box_preds top_scores top_labels dir_labels img_idx =
     bind_err (single_class_select nms_score_threshold use_direction_classifier nms_func
                 box_preds top_scores top_labels dir_labels)
       (\<lambda>st. finalize_trt use_direction_classifier st img_idx)"

text \<open>One sample of \<^verbatim>\<open>PointPillars_trt.predict\<close> with multiclass NMS, lines 680 to 771.\<close>

definition predict_trt_multiclass ::
  "bool \<Rightarrow> box list \<Rightarrow> int list \<Rightarrow> real tensor2 \<Rightarrow> nat list option list \<Rightarrow> nat
     \<Rightarrow> error + trt_prediction"
where
  "predict_trt_multiclass use_direction_classifier box_preds dir_labels total_scores
       selected_per_class img_idx =
     bind_err (trt_assemble use_direction_classifier box_preds dir_labels total_scores
                 selected_per_class)
       (\<lambda>st. finalize_trt use_direction_classifier st img_idx)"

section \<open>Direction targets\<close>

text \<open>
  Lines 875 and 876 of \<^verbatim>\<open>get_direction_target\<close>, on the yaw columns of the anchors and
  of the regression targets of one sample (the one-hot encoding that follows is left
  out): the direction class is 1 where the target yaw is positive.
\<close>

definition get_direction_target :: "box list \<Rightarrow> box list \<Rightarrow> int list" where
  "get_direction_target anchors reg_targets =
     map2 (\<lambda>a r. if yaw r + yaw a > 0 then 1 else 0) anchors reg_targets"

section \<open>What the assembly is expected to return\<close>

text \<open>
  The classes that produced survivors, from class \<open>i\<close> on, each with its indices: the
  entries of \<^verbatim>\<open>selected_per_class\<close> that are not \<^verbatim>\<open>None\<close>, tagged with their
  class label.
\<close>

fun survivors :: "nat \<Rightarrow> nat list option list \<Rightarrow> (nat \<times> nat list) list" where
  "survivors i [] = []"
| "survivors i (None # sels) = survivors (Suc i) sels"
| "survivors i (Some selected # sels) = (i, selected) # survivors (Suc i) sels"

text \<open>
  The indices of a class are within the tensors they index: the boxes, the rows and the
  class column of the scores and, with the direction classifier, the direction labels.
\<close>

definition in_range :: "bool \<Rightarrow> box list \<Rightarrow> int list \<Rightarrow> real tensor2 \<Rightarrow> nat \<times> nat list \<Rightarrow> bool"
where
  "in_range use_direction_classifier box_preds dir_labels total_scores =
     (\<lambda>(i, selected).
        list_all (\<lambda>j. j < length box_preds \<and> j < length total_scores
                      \<and> i < length (total_scores ! j)
                      \<and> (if use_direction_classifier then j < length dir_labels else True))
          selected)"

section \<open>Properties of the loss-weight preparer\<close>

lemma sum_list_type_dtype_count:
  "sum_list (map (\<lambda>l. type_dtype (P l)) row) = real (length (filter P row))"
  by (induction row) (simp_all add: type_dtype_def)

lemma pos_normalizer_count:
  "pos_normalizer labels = map (\<lambda>row. real (length (filter (\<lambda>l. l > 0) row))) labels"
  by (simp add: pos_normalizer_def sum_keepdim_def positives_of_def comp_def
      sum_list_type_dtype_count)

lemma div_rows_map:
  "div_rows (map f labels) (map g labels) =
     map (\<lambda>row. map (\<lambda>v. fl_div v (g row)) (f row)) labels"
  by (induction labels) (simp_all add: div_rows_def)

text \<open>A clamped count is at least 1, so the division by it is an ordinary one.\<close>

lemma fl_div_clamped: "fl_div v (max (real n) 1) = Fin (v / max (real n) 1)"
  by (simp add: fl_div_def max_def)

lemma clamped_pos_normalizer:
  "clamp_min (pos_normalizer labels) 1 =
     map (\<lambda>row. max (real (length (filter (\<lambda>l. l > 0) row))) 1) labels"
  by (simp add: clamp_min_def pos_normalizer_count comp_def)

lemma base_cls_weights_map:
  "base_cls_weights labels pos_cls_weight neg_cls_weight =
     map (map (\<lambda>l. neg_cls_weight + pos_cls_weight * (if l > 0 then 1 else 0))) labels"
  by (simp add: base_cls_weights_def positives_of_def type_dtype_def comp_def)

lemma base_reg_weights_map:
  "base_reg_weights labels = map (map (\<lambda>l. if l > 0 then 1 else 0)) labels"
  by (simp add: base_reg_weights_def positives_of_def type_dtype_def comp_def)

lemma norm_by_num_positives_unfold:
  "prepare_loss_weights labels pos_cls_weight neg_cls_weight ''NormByNumPositives'' =
     Inr (div_rows (base_cls_weights labels pos_cls_weight neg_cls_weight)
             (clamp_min (pos_normalizer labels) 1),
          div_rows (base_reg_weights labels) (clamp_min (pos_normalizer labels) 1),
          cared_of labels)"
  by (simp add: prepare_loss_weights_def)

lemma reg_weights_by_num_positives:
  "div_rows (base_reg_weights labels) (clamp_min (pos_normalizer labels) 1) =
     map (\<lambda>row. map (\<lambda>l. Fin ((if l > 0 then 1 else 0)
                                / max (real (length (filter (\<lambda>l. l > 0) row))) 1)) row) labels"
  unfolding base_reg_weights_map clamped_pos_normalizer
  by (simp add: div_rows_map comp_def fl_div_clamped)

lemma cls_weights_by_num_positives:
  "div_rows (base_cls_weights labels pos_cls_weight neg_cls_weight)
       (clamp_min (pos_normalizer labels) 1) =
     map (\<lambda>row. map (\<lambda>l. Fin ((neg_cls_weight + pos_cls_weight * (if l > 0 then 1 else 0))
                                / max (real (length (filter (\<lambda>l. l > 0) row))) 1)) row) labels"
  unfolding base_cls_weights_map clamped_pos_normalizer
  by (simp add: div_rows_map comp_def fl_div_clamped)

text \<open>The same division by the count as it is, without the clamp.\<close>

lemma reg_weights_by_raw_count:
  "div_rows (base_reg_weights labels) (pos_normalizer labels) =
     map (\<lambda>row. map (\<lambda>l. fl_div (if l > 0 then 1 else 0)
                                  (real (length (filter (\<lambda>l. l > 0) row)))) row) labels"
  unfolding base_reg_weights_map pos_normalizer_count
  by (simp add: div_rows_map comp_def)

lemma no_positive_filter:
  "list_all (\<lambda>l. l \<le> 0) row \<Longrightarrow> filter (\<lambda>l. l > (0::int)) row = []"
  by (induction row) simp_all

lemma no_positive_row_zero:
  "list_all (\<lambda>l. l \<le> 0) row \<Longrightarrow>
     map (\<lambda>l. Fin ((if l > (0::int) then 1 else 0) / d)) row = replicate (length row) (Fin 0)"
  by (induction row) simp_all

lemma no_positive_row_weight:
  "list_all (\<lambda>l. l \<le> 0) row \<Longrightarrow>
     map (\<lambda>l. Fin ((c + p * (if l > (0::int) then 1 else 0)) / 1)) row
       = replicate (length row) (Fin c)"
  by (induction row) simp_all

lemma no_positive_row_nan:
  "list_all (\<lambda>l. l \<le> 0) row \<Longrightarrow>
     map (\<lambda>l. fl_div (if l > (0::int) then 1 else 0) 0) row = replicate (length row) NaN"
  by (induction row) (simp_all add: fl_div_def)

text \<open>
  Claim C2 says that for one sample of three anchors labelled -1, 0 and 1, both class
  weights 1 and the policy NormByNumPositives, the preparer returns
  cared = [False, True, True], reg_weights = [0, 0, 1] and cls_weights = [0, 1, 2].
  The code returns cls_weights = [1, 1, 2]: the ignored anchor gets the weight 1 of a
  negative one, although the tensor of line 788, which the code computes and does not
  use, is 0 there.
\<close>

theorem prepare_loss_weights_example:
  "prepare_loss_weights [[-1, 0, 1]] 1 1 ''NormByNumPositives''
     = Inr ([[Fin 1, Fin 1, Fin 2]], [[Fin 0, Fin 0, Fin 1]], [[False, True, True]])
   \<and> negatives_cls_weights [[-1, 0, 1]] 1 = [[0, 1, 0]]"
  by (simp add: prepare_loss_weights_def cared_of_def base_cls_weights_def base_reg_weights_def
      positives_of_def negatives_of_def negatives_cls_weights_def pos_normalizer_def
      sum_keepdim_def clamp_min_def div_rows_def fl_div_def type_dtype_def)

text \<open>
  Claim C3: for every label tensor, the base weights are
  \<open>neg_cls_weight + pos_cls_weight * 1[label > 0]\<close> for classification and
  \<open>1[label > 0]\<close> for regression; under NormByNumPositives the preparer returns both
  divided, in every batch row, by the number of positive anchors of the row clamped to
  at least 1, together with cared = (labels >= 0). Every weight is a finite value.
\<close>

theorem prepare_loss_weights_norm_by_num_positives:
  "prepare_loss_weights labels pos_cls_weight neg_cls_weight ''NormByNumPositives'' =
     Inr (map (\<lambda>row. map (\<lambda>l. Fin ((neg_cls_weight + pos_cls_weight * (if l > 0 then 1 else 0))
                                 / max (real (length (filter (\<lambda>l. l > 0) row))) 1)) row) labels,
          map (\<lambda>row. map (\<lambda>l. Fin ((if l > 0 then 1 else 0)
                                 / max (real (length (filter (\<lambda>l. l > 0) row))) 1)) row) labels,
          map (map (\<lambda>l. l \<ge> 0)) labels)
   \<and> base_cls_weights labels pos_cls_weight neg_cls_weight =
       map (map (\<lambda>l. neg_cls_weight + pos_cls_weight * (if l > 0 then 1 else 0))) labels
   \<and> base_reg_weights labels = map (map (\<lambda>l. if l > 0 then 1 else 0)) labels"
  using cls_weights_by_num_positives [of labels pos_cls_weight neg_cls_weight]
    reg_weights_by_num_positives [of labels]
  by (simp add: norm_by_num_positives_unfold base_cls_weights_map base_reg_weights_map
      cared_of_def)

text \<open>
  Claim C6: under NormByNumPositives, a batch row whose labels are all at most 0 gets
  regression weights that are all the finite value 0, and finite classification
  weights: no \<^verbatim>\<open>nan\<close> and no infinity. The count of positives of that row is 0 and
  the divisor used is the clamped count 1; the same division by the count as it is
  would make every regression weight of the row \<^verbatim>\<open>nan\<close>.
\<close>

theorem reg_weights_zero_without_positives:
  assumes "i < length labels"
    and "list_all (\<lambda>l. l \<le> 0) (labels ! i)"
  shows "\<exists>cls_weights reg_weights cared.
           prepare_loss_weights labels pos_cls_weight neg_cls_weight ''NormByNumPositives''
             = Inr (cls_weights, reg_weights, cared)
         \<and> reg_weights = div_rows (base_reg_weights labels) (clamp_min (pos_normalizer labels) 1)
         \<and> reg_weights ! i = replicate (length (labels ! i)) (Fin 0)
         \<and> cls_weights ! i = replicate (length (labels ! i)) (Fin neg_cls_weight)
         \<and> pos_normalizer labels ! i = 0
         \<and> clamp_min (pos_normalizer labels) 1 ! i = 1
         \<and> div_rows (base_reg_weights labels) (pos_normalizer labels) ! i
             = replicate (length (labels ! i)) NaN"
proof -
  let ?reg = "div_rows (base_reg_weights labels) (clamp_min (pos_normalizer labels) 1)"
  let ?cls = "div_rows (base_cls_weights labels pos_cls_weight neg_cls_weight)
                (clamp_min (pos_normalizer labels) 1)"
  have "?reg ! i = replicate (length (labels ! i)) (Fin 0)"
    using assms by (simp add: reg_weights_by_num_positives no_positive_row_zero)
  moreover have "?cls ! i = replicate (length (labels ! i)) (Fin neg_cls_weight)"
    using assms no_positive_row_weight [of "labels ! i" neg_cls_weight pos_cls_weight]
    by (simp add: cls_weights_by_num_positives no_positive_filter)
  moreover have "pos_normalizer labels ! i = 0"
    using assms by (simp add: pos_normalizer_count no_positive_filter)
  moreover have "clamp_min (pos_normalizer labels) 1 ! i = 1"
    using assms by (simp add: clamped_pos_normalizer no_positive_filter)
  moreover have "div_rows (base_reg_weights labels) (pos_normalizer labels) ! i
                   = replicate (length (labels ! i)) NaN"
    using assms by (simp add: reg_weights_by_raw_count no_positive_filter no_positive_row_nan)
  ultimately show ?thesis
    by (simp add: norm_by_num_positives_unfold)
qed

theorem reg_weights_zero_without_positives_witness:
  "\<exists>cls_weights reg_weights cared.
     prepare_loss_weights [[0, -1, 0], [2, 0, 1]] 1 1 ''NormByNumPositives''
       = Inr (cls_weights, reg_weights, cared)
     \<and> reg_weights ! 0 = [Fin 0, Fin 0, Fin 0]
     \<and> cls_weights ! 0 = [Fin 1, Fin 1, Fin 1]
     \<and> pos_normalizer [[0, -1, 0], [2, 0, 1]] ! 0 = 0
     \<and> clamp_min (pos_normalizer [[0, -1, 0], [2, 0, 1]]) 1 ! 0 = 1
     \<and> div_rows (base_reg_weights [[0, -1, 0], [2, 0, 1]])
          (pos_normalizer [[0, -1, 0], [2, 0, 1]]) ! 0 = [NaN, NaN, NaN]"
  using reg_weights_zero_without_positives [of 0 "[[0, -1, 0], [2, 0, 1]]" 1 1]
  by (auto simp: numeral_3_eq_3)

text \<open>
  Claim C9: for every label tensor and weights, a policy name that is none of
  NormByNumExamples, NormByNumPositives and NormByNumPosNeg makes the preparer raise at
  once: the result is an exception (the \<^verbatim>\<open>NameError\<close> of the message of line 812) and
  no weights.
\<close>

theorem prepare_loss_weights_unknown_norm:
  assumes "loss_norm_type \<noteq> ''NormByNumExamples''"
    and "loss_norm_type \<noteq> ''NormByNumPositives''"
    and "loss_norm_type \<noteq> ''NormByNumPosNeg''"
  shows "prepare_loss_weights labels pos_cls_weight neg_cls_weight loss_norm_type
           = Inl NameError"
  using assms by (simp add: prepare_loss_weights_def)

theorem prepare_loss_weights_unknown_norm_witness:
  "prepare_loss_weights [[-1, 0, 1]] 1 1 ''NormByNumAnchors'' = Inl NameError"
  by (rule prepare_loss_weights_unknown_norm) simp_all

section \<open>Properties of the scores\<close>

text \<open>
  Claim C8: with the background encoded as all zeros, the scores are the sigmoid of every
  class channel and the combination with softmax scoring fails by assertion; with a
  background channel, the scores are the sigmoid, or else the softmax (normalised over
  all channels, the background included), of the channels after the first.
\<close>

theorem total_scores_of_cases:
  "total_scores_of True False cls_preds = Inl AssertionError
   \<and> total_scores_of True True cls_preds = Inr (map (map sigmoid) cls_preds)
   \<and> total_scores_of False True cls_preds = Inr (map (\<lambda>row. map sigmoid (drop 1 row)) cls_preds)
   \<and> total_scores_of False False cls_preds =
       Inr (map (\<lambda>row. map (\<lambda>v. exp v / sum_list (map exp row)) (drop 1 row)) cls_preds)"
  by (simp add: total_scores_of_def softmax_def drop_map)

section \<open>Properties of the direction resolver\<close>

lemma dir_labels_of_binary: "list_all (\<lambda>d. d = 0 \<or> d = 1) (dir_labels_of dir_preds)"
  by (induction dir_preds) (auto simp: dir_labels_of_def)

lemma get_direction_target_binary:
  "list_all (\<lambda>d. d = 0 \<or> d = 1) (get_direction_target anchors reg_targets)"
  by (auto simp: get_direction_target_def list_all_iff in_set_zip)

lemma opp_label_own_hemisphere: "\<not> opp_label b (if yaw b > 0 then 1 else 0)"
  by (simp add: opp_label_def)

lemma resolve_direction_nth:
  assumes "length dir_labels = length box_preds" and "i < length box_preds"
  shows "resolve_direction box_preds dir_labels ! i =
           (box_preds ! i)\<lparr>yaw := yaw (box_preds ! i)
              + (if opp_label (box_preds ! i) (dir_labels ! i) then pi else 0)\<rparr>"
  using assms by (simp add: resolve_direction_def)

lemma resolve_direction_trt_nth:
  assumes "length dir_labels = length box_preds" and "i < length box_preds"
  shows "resolve_direction_trt box_preds dir_labels ! i =
           (box_preds ! i)\<lparr>yaw := yaw (box_preds ! i)
              + (if opp_label_trt (box_preds ! i) (dir_labels ! i) then pi else 0)\<rparr>"
  using assms by (simp add: resolve_direction_trt_def)

text \<open>
  Both resolvers, on boxes and direction classes of the same length: a box gets \<open>pi\<close>
  added to its yaw exactly when (yaw > 0) and (direction class is 1) differ, and is
  left as it is when they agree. Direction classes are 0 or 1
  (\<open>dir_labels_of_binary\<close>).
\<close>

lemma resolve_direction_xor:
  assumes "length dir_labels = length box_preds"
    and "list_all (\<lambda>d. d = 0 \<or> d = 1) dir_labels"
    and "i < length box_preds"
  shows "resolve_direction box_preds dir_labels ! i =
           (if (yaw (box_preds ! i) > 0) \<noteq> (dir_labels ! i = 1)
            then (box_preds ! i)\<lparr>yaw := yaw (box_preds ! i) + pi\<rparr>
            else box_preds ! i)
       \<and> resolve_direction_trt box_preds dir_labels ! i =
           (if (yaw (box_preds ! i) > 0) \<noteq> (dir_labels ! i = 1)
            then (box_preds ! i)\<lparr>yaw := yaw (box_preds ! i) + pi\<rparr>
            else box_preds ! i)
       \<and> length (resolve_direction box_preds dir_labels) = length box_preds
       \<and> length (resolve_direction_trt box_preds dir_labels) = length box_preds"
proof -
  have d: "dir_labels ! i = 0 \<or> dir_labels ! i = 1"
    using assms by (simp add: list_all_length)
  have o: "opp_label (box_preds ! i) (dir_labels ! i)
             = ((yaw (box_preds ! i) > 0) \<noteq> (dir_labels ! i = 1))"
    using d by (auto simp: opp_label_def)
  have t: "opp_label_trt (box_preds ! i) (dir_labels ! i)
             = ((yaw (box_preds ! i) > 0) \<noteq> (dir_labels ! i = 1))"
    using d by (auto simp: opp_label_trt_def)
  show ?thesis
    using assms(1,3) by (simp add: resolve_direction_nth resolve_direction_trt_nth o t)
       (simp add: resolve_direction_def resolve_direction_trt_def)
qed

text \<open>
  Claim C5, as the specification states it: a selected box with decoded yaw 0.1 and
  direction class 1 leaves the resolver with yaw 0.1 + \<open>pi\<close>. It does not.
\<close>

theorem resolve_direction_example_counterexample:
  "resolve_direction
     [\<lparr>cx = 0, cy = 0, cz = 0, dim_w = 1, dim_l = 2, dim_h = 1, yaw = 0.1\<rparr>] [1]
   \<noteq> [\<lparr>cx = 0, cy = 0, cz = 0, dim_w = 1, dim_l = 2, dim_h = 1, yaw = 0.1 + pi\<rparr>]"
  by (simp add: resolve_direction_def opp_label_def)

text \<open>
  Claim C5, amended: a selected box with decoded yaw 0.1 and direction class 1 leaves
  the resolver unchanged, with yaw 0.1: class 1 is the class of a positive yaw
  (\<open>get_direction_target\<close>), so the two agree. With direction class 0 the output yaw is
  0.1 + \<open>pi\<close>.
\<close>

theorem resolve_direction_example:
  "resolve_direction [b\<lparr>yaw := 0.1\<rparr>] [1] = [b\<lparr>yaw := 0.1\<rparr>]
   \<and> resolve_direction [b\<lparr>yaw := 0.1\<rparr>] [0] = [b\<lparr>yaw := 0.1 + pi\<rparr>]"
  by (simp add: resolve_direction_def opp_label_def)

section \<open>Properties of the selection without multiclass NMS\<close>

lemma masked_select_filter: "masked_select t (map P t) = filter P t"
  by (induction t) (simp_all add: masked_select_def)

lemma finalize_no_selection:
  "finalize use_direction_classifier no_selection img_idx = Inr (no_detections img_idx)"
  by (simp add: finalize_def no_selection_def)

text \<open>
  Claim C7: without multiclass NMS, a sample in which no anchor passes the score
  threshold (or that has no anchor), or for which NMS returns no indices
  (\<^verbatim>\<open>None\<close>, the value the code tests for), gets the all-\<^verbatim>\<open>None\<close> dictionary as a
  normal result, not an exception. \<open>top_scores1\<close> and \<open>box_preds1\<close> are the scores and
  boxes that pass the threshold, as the code computes them; in the second case the
  tensors of the sample have one entry per anchor.
\<close>

theorem predict_single_class_no_detections:
  assumes "top_scores1 =
             (if nms_score_threshold > 0
              then masked_select top_scores (map (\<lambda>s. s \<ge> nms_score_threshold) top_scores)
              else top_scores)"
    and "box_preds1 =
             (if nms_score_threshold > 0
              then masked_select box_preds (map (\<lambda>s. s \<ge> nms_score_threshold) top_scores)
              else box_preds)"
    and "top_scores1 = []
         \<or> (length box_preds = length top_scores \<and> length top_labels = length top_scores
            \<and> (if use_direction_classifier then length dir_labels = length top_scores else True)
            \<and> nms_func box_preds1 top_scores1 = None)"
  shows "predict_single_class nms_score_threshold use_direction_classifier nms_func
           box_preds top_scores top_labels dir_labels img_idx = Inr (no_detections img_idx)"
proof (cases "top_scores1 = []")
  case True
  then have "single_class_select nms_score_threshold use_direction_classifier nms_func
           box_preds top_scores top_labels dir_labels = Inr no_selection"
    using assms(1) by (simp add: single_class_select_def Let_def)
  then show ?thesis
    by (simp add: predict_single_class_def bind_err_def finalize_no_selection)
next
  case False
  with assms(3) have sh: "length box_preds = length top_scores"
    "length top_labels = length top_scores"
    "use_direction_classifier \<Longrightarrow> length dir_labels = length top_scores"
    and nms: "nms_func box_preds1 top_scores1 = None"
    by (simp_all split: if_splits)
  have "single_class_select nms_score_threshold use_direction_classifier nms_func
           box_preds top_scores top_labels dir_labels = Inr no_selection"
  proof (cases "nms_score_threshold > 0")
    case True
    then show ?thesis
      using False assms(1,2) sh nms
      by (simp add: single_class_select_def Let_def mask_index_def bind_err_def)
  next
    case nothr: False
    then show ?thesis
      using False assms(1,2) nms
      by (simp add: single_class_select_def Let_def bind_err_def)
  qed
  then show ?thesis
    by (simp add: predict_single_class_def bind_err_def finalize_no_selection)
qed

theorem predict_single_class_no_detections_witness:
  "predict_single_class (1 / 2) True (\<lambda>bs ss. None)
     [\<lparr>cx = 0, cy = 0, cz = 0, dim_w = 1, dim_l = 2, dim_h = 1, yaw = 1 / 2\<rparr>,
      \<lparr>cx = 5, cy = 5, cz = 0, dim_w = 1, dim_l = 2, dim_h = 1, yaw = - 1 / 4\<rparr>]
     [3 / 4, 1 / 4] [0, 0] [1, 0] 7 = Inr (no_detections 7)
   \<and> predict_single_class (1 / 2) True (\<lambda>bs ss. Some [0])
     [\<lparr>cx = 0, cy = 0, cz = 0, dim_w = 1, dim_l = 2, dim_h = 1, yaw = 1 / 2\<rparr>,
      \<lparr>cx = 5, cy = 5, cz = 0, dim_w = 1, dim_l = 2, dim_h = 1, yaw = - 1 / 4\<rparr>]
     [1 / 8, 1 / 4] [0, 0] [1, 0] 7 = Inr (no_detections 7)"
proof -
  let ?bs = "[\<lparr>cx = 0, cy = 0, cz = 0, dim_w = 1, dim_l = 2, dim_h = 1, yaw = 1 / 2\<rparr>,
      \<lparr>cx = 5, cy = 5, cz = 0, dim_w = 1, dim_l = 2, dim_h = 1, yaw = - 1 / 4\<rparr>]"
  have a: "predict_single_class (1 / 2) True (\<lambda>bs ss. None) ?bs [3 / 4, 1 / 4] [0, 0] [1, 0] 7
             = Inr (no_detections 7)"
    by (rule predict_single_class_no_detections [OF refl refl]) (simp add: masked_select_def)
  have b: "predict_single_class (1 / 2) True (\<lambda>bs ss. Some [0]) ?bs [1 / 8, 1 / 4] [0, 0] [1, 0] 7
             = Inr (no_detections 7)"
    by (rule predict_single_class_no_detections [OF refl refl]) (simp add: masked_select_def)
  show ?thesis using a b by simp
qed

text \<open>
  Were NMS to return an empty tensor of indices instead of \<^verbatim>\<open>None\<close>, the package would
  hold empty tensors, since the code tests \<^verbatim>\<open>selected is not None\<close> only.
\<close>

lemma predict_single_class_empty_selection:
  "predict_single_class 0 False (\<lambda>bs ss. Some []) [b] [s] [c] [] img_idx =
     Inr \<lparr>bbox = PyNone, box3d_camera = PyNone, box3d_lidar = Tensor [],
          scores = Tensor [], label_preds = Tensor [], image_idx = img_idx\<rparr>"
  by (simp add: predict_single_class_def single_class_select_def bind_err_def index_rows_def
      finalize_def)

section \<open>Properties of the assembly after multiclass NMS\<close>

subsection \<open>The loop of \<^verbatim>\<open>PointPillars.predict\<close>\<close>

lemma pp_body_None: "pp_body u box_preds i None st = Inr st"
  by (simp add: pp_body_def)

lemma pp_body_Some_empty_lists:
  "\<exists>e. pp_body u box_preds i (Some selected) empty_lists = Inl e"
  by (cases "index_rows box_preds selected")
     (simp_all add: pp_body_def bind_err_def empty_lists_def)

lemma pp_body_Some_valid:
  "list_all (\<lambda>j. j < length box_preds) selected \<Longrightarrow>
     pp_body u box_preds i (Some selected) empty_lists = Inl RuntimeError"
  by (simp add: pp_body_def bind_err_def empty_lists_def index_rows_def)

lemma pp_loop_all_none:
  "list_all (\<lambda>s. s = None) sels \<Longrightarrow> pp_loop u box_preds i sels st = Inr st"
  by (induction sels arbitrary: i) (simp_all add: pp_body_None bind_err_def)

lemma pp_loop_some_raises:
  "\<not> list_all (\<lambda>s. s = None) sels \<Longrightarrow> \<exists>e. pp_loop u box_preds i sels empty_lists = Inl e"
proof (induction sels arbitrary: i)
  case Nil
  then show ?case by simp
next
  case (Cons sel sels)
  show ?case
  proof (cases sel)
    case None
    with Cons.prems have "\<not> list_all (\<lambda>s. s = None) sels" by simp
    from Cons.IH [OF this] None show ?thesis
      by (simp add: pp_body_None bind_err_def)
  next
    case (Some selected)
    obtain e where "pp_body u box_preds i (Some selected) empty_lists = Inl e"
      using pp_body_Some_empty_lists by blast
    with Some show ?thesis by (simp add: bind_err_def)
  qed
qed

text \<open>
  The loop of \<^verbatim>\<open>PointPillars.predict\<close> returns the all-\<^verbatim>\<open>None\<close> selection when no class
  has survivors, raises as soon as one class has, and never returns survivors.
\<close>

lemma pp_assemble_all_none:
  "list_all (\<lambda>s. s = None) sels \<Longrightarrow> pp_assemble u box_preds sels = Inr no_selection"
  by (simp add: pp_assemble_def pp_loop_all_none bind_err_def)

lemma pp_assemble_some_raises:
  "\<not> list_all (\<lambda>s. s = None) sels \<Longrightarrow> \<exists>e. pp_assemble u box_preds sels = Inl e"
  using pp_loop_some_raises [of sels u box_preds 0]
  by (auto simp: pp_assemble_def bind_err_def)

lemma pp_assemble_returns_none_only:
  "pp_assemble u box_preds sels = Inr st \<Longrightarrow> st = no_selection"
  by (auto simp: pp_assemble_def bind_err_def split: sum.splits)

subsection \<open>The loop of \<^verbatim>\<open>PointPillars_trt.predict\<close>\<close>

lemma torch_cat_nonempty: "ts \<noteq> [] \<Longrightarrow> torch_cat (PyList ts) = Inr (Tensor (concat ts))"
  by (cases ts) simp_all

lemma survivors_empty_iff: "survivors i sels = [] \<longleftrightarrow> list_all (\<lambda>s. s = None) sels"
  by (induction i sels rule: survivors.induct) simp_all

lemma trt_body_None: "trt_body u box_preds dir_labels total_scores i None st = Inr st"
  by (simp add: trt_body_def)

lemma trt_body_Some:
  assumes "in_range u box_preds dir_labels total_scores (i, selected)"
  shows "trt_body u box_preds dir_labels total_scores i (Some selected)
           \<lparr>selected_boxes = PyList bs, selected_labels = PyList ls,
            selected_scores = PyList ss, selected_dir_labels = PyList ds\<rparr>
         = Inr \<lparr>selected_boxes = PyList (bs @ [map (\<lambda>j. box_preds ! j) selected]),
                selected_labels = PyList (ls @ [replicate (length selected) (int i)]),
                selected_scores = PyList (ss @ [map (\<lambda>j. total_scores ! j ! i) selected]),
                selected_dir_labels =
                  PyList (ds @ (if u then [map (\<lambda>j. dir_labels ! j) selected] else []))\<rparr>"
proof -
  have b: "list_all (\<lambda>j. j < length box_preds) selected"
    and c: "list_all (\<lambda>j. j < length total_scores \<and> i < length (total_scores ! j)) selected"
    and d: "u \<Longrightarrow> list_all (\<lambda>j. j < length dir_labels) selected"
    using assms by (auto simp: in_range_def list_all_iff)
  show ?thesis
    using b c d
    by (simp add: trt_body_def bind_err_def index_rows_def index_column_def)
qed

text \<open>The invariant of the loop: every class with survivors appends one tensor to each list.\<close>

lemma trt_loop_lists:
  assumes "list_all (in_range u box_preds dir_labels total_scores) (survivors i sels)"
  shows "trt_loop u box_preds dir_labels total_scores i sels
           \<lparr>selected_boxes = PyList bs, selected_labels = PyList ls,
            selected_scores = PyList ss, selected_dir_labels = PyList ds\<rparr>
         = Inr \<lparr>selected_boxes =
                  PyList (bs @ map (\<lambda>(i, s). map (\<lambda>j. box_preds ! j) s) (survivors i sels)),
                selected_labels =
                  PyList (ls @ map (\<lambda>(i, s). replicate (length s) (int i)) (survivors i sels)),
                selected_scores =
                  PyList (ss @ map (\<lambda>(i, s). map (\<lambda>j. total_scores ! j ! i) s)
                                 (survivors i sels)),
                selected_dir_labels =
                  PyList (ds @ (if u then map (\<lambda>(i, s). map (\<lambda>j. dir_labels ! j) s)
                                            (survivors i sels) else []))\<rparr>"
  using assms
proof (induction sels arbitrary: i bs ls ss ds)
  case Nil
  then show ?case by simp
next
  case (Cons sel sels)
  show ?case
  proof (cases sel)
    case None
    with Cons.prems have "list_all (in_range u box_preds dir_labels total_scores)
        (survivors (Suc i) sels)" by simp
    from Cons.IH [OF this] None show ?thesis
      by (simp add: trt_body_None bind_err_def)
  next
    case (Some selected)
    with Cons.prems have r: "in_range u box_preds dir_labels total_scores (i, selected)"
      and rest: "list_all (in_range u box_preds dir_labels total_scores) (survivors (Suc i) sels)"
      by simp_all
    show ?thesis
      using Some by (simp add: trt_body_Some [OF r] bind_err_def Cons.IH [OF rest])
  qed
qed

text \<open>
  The loop of \<^verbatim>\<open>PointPillars_trt.predict\<close> does what claim C1 says: with indices in
  range, it returns the concatenated survivors of every class that has any, and the
  all-\<^verbatim>\<open>None\<close> selection exactly when no class has.
\<close>

lemma trt_assemble_concatenates:
  assumes "list_all (in_range u box_preds dir_labels total_scores) (survivors 0 sels)"
  shows "trt_assemble u box_preds dir_labels total_scores sels =
           (if survivors 0 sels = [] then Inr no_selection
            else Inr \<lparr>selected_boxes =
                        Tensor (concat (map (\<lambda>(i, s). map (\<lambda>j. box_preds ! j) s)
                                          (survivors 0 sels))),
                      selected_labels =
                        Tensor (concat (map (\<lambda>(i, s). replicate (length s) (int i))
                                          (survivors 0 sels))),
                      selected_scores =
                        Tensor (concat (map (\<lambda>(i, s). map (\<lambda>j. total_scores ! j ! i) s)
                                          (survivors 0 sels))),
                      selected_dir_labels =
                        (if u then Tensor (concat (map (\<lambda>(i, s). map (\<lambda>j. dir_labels ! j) s)
                                                     (survivors 0 sels)))
                         else PyList [])\<rparr>)"
  by (simp add: trt_assemble_def empty_lists_def
      trt_loop_lists [OF assms, of "[]" "[]" "[]" "[]", simplified]
      bind_err_def torch_cat_nonempty)

subsection \<open>The two loops compared\<close>

text \<open>
  Claim C1 says that with multiclass NMS the assembler concatenates the survivors of
  every class that produced any, and returns the all-\<^verbatim>\<open>None\<close> result only when no
  class has a survivor. On two boxes and two classes, where class 1 keeps anchors 1 and
  0, \<^verbatim>\<open>PointPillars.predict\<close> raises (\<^verbatim>\<open>torch.cat\<close> of the empty \<^verbatim>\<open>selected_scores\<close>)
  and returns no detection, while the loop of \<^verbatim>\<open>PointPillars_trt.predict\<close> returns the
  two survivors with label 1 and their scores.
\<close>

theorem pp_assemble_drops_survivors:
  "pp_assemble False
     [\<lparr>cx = 0, cy = 0, cz = 0, dim_w = 1, dim_l = 2, dim_h = 1, yaw = 1 / 2\<rparr>,
      \<lparr>cx = 5, cy = 5, cz = 0, dim_w = 1, dim_l = 2, dim_h = 1, yaw = - 1 / 4\<rparr>]
     [None, Some [1, 0]] = Inl RuntimeError
   \<and> predict_multiclass False
     [\<lparr>cx = 0, cy = 0, cz = 0, dim_w = 1, dim_l = 2, dim_h = 1, yaw = 1 / 2\<rparr>,
      \<lparr>cx = 5, cy = 5, cz = 0, dim_w = 1, dim_l = 2, dim_h = 1, yaw = - 1 / 4\<rparr>]
     [None, Some [1, 0]] 7 = Inl RuntimeError
   \<and> trt_assemble False
     [\<lparr>cx = 0, cy = 0, cz = 0, dim_w = 1, dim_l = 2, dim_h = 1, yaw = 1 / 2\<rparr>,
      \<lparr>cx = 5, cy = 5, cz = 0, dim_w = 1, dim_l = 2, dim_h = 1, yaw = - 1 / 4\<rparr>]
     [] [[1 / 8, 3 / 4], [1 / 4, 7 / 8]] [None, Some [1, 0]]
     = Inr \<lparr>selected_boxes = Tensor
              [\<lparr>cx = 5, cy = 5, cz = 0, dim_w = 1, dim_l = 2, dim_h = 1, yaw = - 1 / 4\<rparr>,
               \<lparr>cx = 0, cy = 0, cz = 0, dim_w = 1, dim_l = 2, dim_h = 1, yaw = 1 / 2\<rparr>],
            selected_labels = Tensor [1, 1],
            selected_scores = Tensor [7 / 8, 3 / 4],
            selected_dir_labels = PyList []\<rparr>"
  by (simp add: pp_assemble_def predict_multiclass_def pp_body_def trt_assemble_def trt_body_def
      bind_err_def empty_lists_def index_rows_def index_column_def)

text \<open>
  Claim C10 says that, on the same input, the assembly loop of \<^verbatim>\<open>PointPillars.predict\<close>
  gives the same selection as the one of \<^verbatim>\<open>PointPillars_trt.predict\<close>. On one box kept
  by the only class, with the direction classifier, the first raises and the second
  returns the box, its label, its score and its direction label.
\<close>

theorem pp_assemble_differs_from_trt:
  "pp_assemble True
     [\<lparr>cx = 0, cy = 0, cz = 0, dim_w = 1, dim_l = 2, dim_h = 1, yaw = 1 / 2\<rparr>] [Some [0]]
   = Inl RuntimeError
   \<and> trt_assemble True
     [\<lparr>cx = 0, cy = 0, cz = 0, dim_w = 1, dim_l = 2, dim_h = 1, yaw = 1 / 2\<rparr>] [1] [[9 / 10]]
     [Some [0]]
   = Inr \<lparr>selected_boxes = Tensor
              [\<lparr>cx = 0, cy = 0, cz = 0, dim_w = 1, dim_l = 2, dim_h = 1, yaw = 1 / 2\<rparr>],
          selected_labels = Tensor [0],
          selected_scores = Tensor [9 / 10],
          selected_dir_labels = Tensor [1]\<rparr>"
  by (simp add: pp_assemble_def pp_body_def trt_assemble_def trt_body_def
      bind_err_def empty_lists_def index_rows_def index_column_def)

section \<open>The direction resolver within \<^verbatim>\<open>predict\<close>\<close>

text \<open>The final step applies the resolver to the selected boxes, in both classes.\<close>

lemma finalize_resolves:
  assumes "length dir_labels = length box_preds"
  shows "finalize True
           \<lparr>selected_boxes = Tensor box_preds, selected_labels = sl,
            selected_scores = ss, selected_dir_labels = Tensor dir_labels\<rparr> img_idx
         = Inr \<lparr>bbox = PyNone, box3d_camera = PyNone,
                box3d_lidar = Tensor (resolve_direction box_preds dir_labels),
                scores = ss, label_preds = sl, image_idx = img_idx\<rparr>"
  using assms by (simp add: finalize_def)

lemma finalize_trt_resolves:
  assumes "length dir_labels = length box_preds"
  shows "finalize_trt True
           \<lparr>selected_boxes = Tensor box_preds, selected_labels = sl,
            selected_scores = ss, selected_dir_labels = Tensor dir_labels\<rparr> img_idx
         = Inr (Detections (Tensor (resolve_direction_trt box_preds dir_labels)) ss sl img_idx)"
  using assms by (simp add: finalize_trt_def)

lemma length_masked_select:
  "length t = length keep \<Longrightarrow> length (masked_select t keep) = length (filter (\<lambda>k. k) keep)"
  by (induction t keep rule: list_induct2) (simp_all add: masked_select_def)

text \<open>
  Without multiclass NMS, the selection holds the boxes and direction classes at the
  indices that NMS returns, among those that pass the threshold.
\<close>

lemma single_class_select_some:
  assumes "keep = map (\<lambda>s. s \<ge> nms_score_threshold) top_scores"
    and "top_scores1 = (if nms_score_threshold > 0 then masked_select top_scores keep
                        else top_scores)"
    and "box_preds1 = (if nms_score_threshold > 0 then masked_select box_preds keep
                       else box_preds)"
    and "dir_labels1 = (if nms_score_threshold > 0 then masked_select dir_labels keep
                        else dir_labels)"
    and "top_labels1 = (if nms_score_threshold > 0 then masked_select top_labels keep
                        else top_labels)"
    and "length box_preds = length top_scores" and "length top_labels = length top_scores"
    and "length dir_labels = length top_scores"
    and "top_scores1 \<noteq> []"
    and "nms_func box_preds1 top_scores1 = Some selected"
    and "list_all (\<lambda>j. j < length top_scores1) selected"
  shows "single_class_select nms_score_threshold True nms_func
           box_preds top_scores top_labels dir_labels
         = Inr \<lparr>selected_boxes = Tensor (map (\<lambda>j. box_preds1 ! j) selected),
                selected_labels = Tensor (map (\<lambda>j. top_labels1 ! j) selected),
                selected_scores = Tensor (map (\<lambda>j. top_scores1 ! j) selected),
                selected_dir_labels = Tensor (map (\<lambda>j. dir_labels1 ! j) selected)\<rparr>"
proof -
  have len: "length box_preds1 = length top_scores1" "length top_labels1 = length top_scores1"
    "length dir_labels1 = length top_scores1"
    using assms(1-8) by (simp_all add: length_masked_select)
  have idx: "index_rows box_preds1 selected = Inr (map (\<lambda>j. box_preds1 ! j) selected)"
    "index_rows top_labels1 selected = Inr (map (\<lambda>j. top_labels1 ! j) selected)"
    "index_rows dir_labels1 selected = Inr (map (\<lambda>j. dir_labels1 ! j) selected)"
    "index_rows top_scores1 selected = Inr (map (\<lambda>j. top_scores1 ! j) selected)"
    using assms(11) len by (simp_all add: index_rows_def)
  show ?thesis
  proof (cases "nms_score_threshold > 0")
    case True
    have m: "mask_index box_preds keep = Inr box_preds1"
      "mask_index dir_labels keep = Inr dir_labels1"
      "mask_index top_labels keep = Inr top_labels1"
      using True assms(1-8) by (simp_all add: mask_index_def)
    have t: "masked_select top_scores keep = top_scores1"
      using True assms(2) by simp
    show ?thesis
      using True assms(9,10) idx
      by (simp add: single_class_select_def Let_def assms(1)[symmetric] m t bind_err_def)
  next
    case False
    then have e: "top_scores1 = top_scores" "box_preds1 = box_preds"
      "dir_labels1 = dir_labels" "top_labels1 = top_labels"
      using assms(2-5) by simp_all
    show ?thesis
      using False assms(9,10) idx
      by (simp add: single_class_select_def Let_def e bind_err_def)
  qed
qed

lemma resolve_direction_map:
  "resolve_direction (map f selected) (map g selected) =
     map (\<lambda>j. (f j)\<lparr>yaw := yaw (f j) + (if opp_label (f j) (g j) then pi else 0)\<rparr>) selected"
  by (induction selected) (simp_all add: resolve_direction_def)

lemma resolve_direction_trt_map:
  "resolve_direction_trt (map f selected) (map g selected) =
     map (\<lambda>j. (f j)\<lparr>yaw := yaw (f j) + (if opp_label_trt (f j) (g j) then pi else 0)\<rparr>)
       selected"
  by (induction selected) (simp_all add: resolve_direction_trt_def)

text \<open>
  Without multiclass NMS, both classes return every box that NMS keeps, with \<open>pi\<close> added
  to its yaw exactly when the resolver's exclusive or holds.
\<close>

lemma predict_single_class_resolves:
  assumes "keep = map (\<lambda>s. s \<ge> nms_score_threshold) top_scores"
    and "top_scores1 = (if nms_score_threshold > 0 then masked_select top_scores keep
                        else top_scores)"
    and "box_preds1 = (if nms_score_threshold > 0 then masked_select box_preds keep
                       else box_preds)"
    and "dir_labels1 = (if nms_score_threshold > 0 then masked_select dir_labels keep
                        else dir_labels)"
    and "top_labels1 = (if nms_score_threshold > 0 then masked_select top_labels keep
                        else top_labels)"
    and "length box_preds = length top_scores" and "length top_labels = length top_scores"
    and "length dir_labels = length top_scores"
    and "top_scores1 \<noteq> []"
    and "nms_func box_preds1 top_scores1 = Some selected"
    and "list_all (\<lambda>j. j < length top_scores1) selected"
  shows "predict_single_class nms_score_threshold True nms_func
           box_preds top_scores top_labels dir_labels img_idx
         = Inr \<lparr>bbox = PyNone, box3d_camera = PyNone,
                box3d_lidar = Tensor (map (\<lambda>j. (box_preds1 ! j)
                    \<lparr>yaw := yaw (box_preds1 ! j)
                       + (if opp_label (box_preds1 ! j) (dir_labels1 ! j) then pi else 0)\<rparr>)
                    selected),
                scores = Tensor (map (\<lambda>j. top_scores1 ! j) selected),
                label_preds = Tensor (map (\<lambda>j. top_labels1 ! j) selected),
                image_idx = img_idx\<rparr>"
    and "predict_trt_single_class nms_score_threshold True nms_func
           box_preds top_scores top_labels dir_labels img_idx
         = Inr (Detections
                 (Tensor (map (\<lambda>j. (box_preds1 ! j)
                    \<lparr>yaw := yaw (box_preds1 ! j)
                       + (if opp_label_trt (box_preds1 ! j) (dir_labels1 ! j) then pi else 0)\<rparr>)
                    selected))
                 (Tensor (map (\<lambda>j. top_scores1 ! j) selected))
                 (Tensor (map (\<lambda>j. top_labels1 ! j) selected)) img_idx)"
proof -
  have sel: "single_class_select nms_score_threshold True nms_func
           box_preds top_scores top_labels dir_labels
         = Inr \<lparr>selected_boxes = Tensor (map (\<lambda>j. box_preds1 ! j) selected),
                selected_labels = Tensor (map (\<lambda>j. top_labels1 ! j) selected),
                selected_scores = Tensor (map (\<lambda>j. top_scores1 ! j) selected),
                selected_dir_labels = Tensor (map (\<lambda>j. dir_labels1 ! j) selected)\<rparr>"
    using assms by (rule single_class_select_some)
  show "predict_single_class nms_score_threshold True nms_func
           box_preds top_scores top_labels dir_labels img_idx
         = Inr \<lparr>bbox = PyNone, box3d_camera = PyNone,
                box3d_lidar = Tensor (map (\<lambda>j. (box_preds1 ! j)
                    \<lparr>yaw := yaw (box_preds1 ! j)
                       + (if opp_label (box_preds1 ! j) (dir_labels1 ! j) then pi else 0)\<rparr>)
                    selected),
                scores = Tensor (map (\<lambda>j. top_scores1 ! j) selected),
                label_preds = Tensor (map (\<lambda>j. top_labels1 ! j) selected),
                image_idx = img_idx\<rparr>"
    by (simp add: predict_single_class_def sel bind_err_def finalize_resolves
        resolve_direction_map)
  show "predict_trt_single_class nms_score_threshold True nms_func
           box_preds top_scores top_labels dir_labels img_idx
         = Inr (Detections
                 (Tensor (map (\<lambda>j. (box_preds1 ! j)
                    \<lparr>yaw := yaw (box_preds1 ! j)
                       + (if opp_label_trt (box_preds1 ! j) (dir_labels1 ! j) then pi else 0)\<rparr>)
                    selected))
                 (Tensor (map (\<lambda>j. top_scores1 ! j) selected))
                 (Tensor (map (\<lambda>j. top_labels1 ! j) selected)) img_idx)"
    by (simp add: predict_trt_single_class_def sel bind_err_def finalize_trt_resolves
        resolve_direction_trt_map)
qed

text \<open>
  With multiclass NMS, \<^verbatim>\<open>PointPillars_trt.predict\<close> returns the concatenated survivors
  with the resolver applied to them.
\<close>

lemma length_concat_survivors:
  "length (concat (map (\<lambda>(i, s). map (f i) s) ps)) = length (concat (map (\<lambda>(i, s). map (g i) s) ps))"
  by (induction ps) (auto simp: case_prod_beta)

lemma predict_trt_multiclass_resolves:
  assumes "list_all (in_range True box_preds dir_labels total_scores) (survivors 0 sels)"
    and "survivors 0 sels \<noteq> []"
  shows "predict_trt_multiclass True box_preds dir_labels total_scores sels img_idx =
           Inr (Detections
             (Tensor (resolve_direction_trt
                (concat (map (\<lambda>(i, s). map (\<lambda>j. box_preds ! j) s) (survivors 0 sels)))
                (concat (map (\<lambda>(i, s). map (\<lambda>j. dir_labels ! j) s) (survivors 0 sels)))))
             (Tensor (concat (map (\<lambda>(i, s). map (\<lambda>j. total_scores ! j ! i) s) (survivors 0 sels))))
             (Tensor (concat (map (\<lambda>(i, s). replicate (length s) (int i)) (survivors 0 sels))))
             img_idx)"
  using assms(2)
    length_concat_survivors [of "\<lambda>i j. dir_labels ! j" "survivors 0 sels" "\<lambda>i j. box_preds ! j"]
  by (simp add: predict_trt_multiclass_def trt_assemble_concatenates [OF assms(1)] bind_err_def
      finalize_trt_resolves)

text \<open>
  With multiclass NMS, \<^verbatim>\<open>PointPillars.predict\<close> never reaches the resolver with a box: it
  returns the all-\<^verbatim>\<open>None\<close> dictionary or raises.
\<close>

lemma predict_multiclass_returns_none_only:
  "predict_multiclass u box_preds sels img_idx = Inr p \<Longrightarrow> p = no_detections img_idx"
  by (auto simp: predict_multiclass_def bind_err_def finalize_no_selection
      split: sum.splits dest: pp_assemble_returns_none_only)

lemma predict_multiclass_some_raises:
  "\<not> list_all (\<lambda>s. s = None) sels \<Longrightarrow> \<exists>e. predict_multiclass u box_preds sels img_idx = Inl e"
  using pp_assemble_some_raises [of sels u box_preds]
  by (auto simp: predict_multiclass_def bind_err_def)

text \<open>
  Claim C4 says that, at inference with the direction classifier, every box that
  survives NMS gets \<open>pi\<close> added to its yaw exactly when (yaw > 0) and (direction class is
  1) differ. For one box of yaw -1/4 and direction class 1, kept by NMS, \<open>pi\<close> is due.
  \<^verbatim>\<open>PointPillars.predict\<close> adds it without multiclass NMS, and so does
  \<^verbatim>\<open>PointPillars_trt.predict\<close> with and without; with multiclass NMS,
  \<^verbatim>\<open>PointPillars.predict\<close> raises in the assembly loop and the box never reaches the
  resolver.
\<close>

theorem predict_multiclass_skips_resolver:
  "predict_multiclass True
     [\<lparr>cx = 0, cy = 0, cz = 0, dim_w = 1, dim_l = 2, dim_h = 1, yaw = - 1 / 4\<rparr>]
     [Some [0]] 7 = Inl RuntimeError
   \<and> predict_trt_multiclass True
     [\<lparr>cx = 0, cy = 0, cz = 0, dim_w = 1, dim_l = 2, dim_h = 1, yaw = - 1 / 4\<rparr>]
     [1] [[9 / 10]] [Some [0]] 7
     = Inr (Detections
         (Tensor [\<lparr>cx = 0, cy = 0, cz = 0, dim_w = 1, dim_l = 2, dim_h = 1, yaw = - 1 / 4 + pi\<rparr>])
         (Tensor [9 / 10]) (Tensor [0]) 7)
   \<and> predict_single_class 0 True (\<lambda>bs ss. Some [0])
     [\<lparr>cx = 0, cy = 0, cz = 0, dim_w = 1, dim_l = 2, dim_h = 1, yaw = - 1 / 4\<rparr>]
     [9 / 10] [0] [1] 7
     = Inr \<lparr>bbox = PyNone, box3d_camera = PyNone,
            box3d_lidar = Tensor
              [\<lparr>cx = 0, cy = 0, cz = 0, dim_w = 1, dim_l = 2, dim_h = 1, yaw = - 1 / 4 + pi\<rparr>],
            scores = Tensor [9 / 10], label_preds = Tensor [0], image_idx = 7\<rparr>
   \<and> predict_trt_single_class 0 True (\<lambda>bs ss. Some [0])
     [\<lparr>cx = 0, cy = 0, cz = 0, dim_w = 1, dim_l = 2, dim_h = 1, yaw = - 1 / 4\<rparr>]
     [9 / 10] [0] [1] 7
     = Inr (Detections
         (Tensor [\<lparr>cx = 0, cy = 0, cz = 0, dim_w = 1, dim_l = 2, dim_h = 1, yaw = - 1 / 4 + pi\<rparr>])
         (Tensor [9 / 10]) (Tensor [0]) 7)"
  by (simp add: predict_multiclass_def pp_assemble_def pp_body_def
      predict_trt_multiclass_def trt_assemble_def trt_body_def finalize_trt_def
      predict_single_class_def predict_trt_single_class_def single_class_select_def
      finalize_def resolve_direction_def resolve_direction_trt_def opp_label_def
      opp_label_trt_def bind_err_def empty_lists_def index_rows_def index_column_def)

end
